theory Spec2Isabelle
  imports Main
begin

section \<open>Strings\<close>

text \<open>
  JavaScript strings are sequences of code units; they are modelled as \<open>string\<close>
  (a \<open>char list\<close>). \<open>startsWith\<close>, \<open>endsWith\<close> and \<open>split\<close> act on the
  sequence of units, so the model follows them unit by unit.
\<close>

text \<open>\<open>s.startsWith(t)\<close>\<close>

fun startsWith :: "string \<Rightarrow> string \<Rightarrow> bool" where
  "startsWith s [] = True"
| "startsWith [] (c # cs) = False"
| "startsWith (x # xs) (c # cs) = (x = c \<and> startsWith xs cs)"

text \<open>\<open>s.endsWith(t)\<close>\<close>

definition endsWith :: "string \<Rightarrow> string \<Rightarrow> bool" where
  "endsWith s t = startsWith (rev s) (rev t)"

text \<open>
  \<open>s.split(c)\<close> for a one-character separator: the pieces between the separators,
  always at least one piece (\<open>''''.split(c)\<close> is \<open>['''']\<close>).
\<close>

fun split_on :: "char \<Rightarrow> string \<Rightarrow> string list" where
  "split_on c [] = [[]]"
| "split_on c (x # xs) =
     (if x = c then [] # split_on c xs
      else (case split_on c xs of
              [] \<Rightarrow> [[x]]
            | p # ps \<Rightarrow> (x # p) # ps))"

text \<open>\<open>parts.join(sep)\<close>\<close>

fun join :: "string \<Rightarrow> string list \<Rightarrow> string" where
  "join sep [] = []"
| "join sep [p] = p"
| "join sep (p # q # ps) = p @ sep @ join sep (q # ps)"

section \<open>Settings and file metadata (settings.ts)\<close>

datatype ConflictResolution = Local | Remote | Newer | Ask

text \<open>
  \<open>GSyncSettings\<close>. Numbers that hold timestamps and counts are integers
  (milliseconds since the epoch for the timestamps).
\<close>

record GSyncSettings =
  clientId :: string
  clientSecret :: string
  accessToken :: string
  refreshToken :: string
  tokenExpiry :: int
  syncFolderId :: string
  syncFolderName :: string
  autoSync :: bool
  autoSyncInterval :: int
  conflictResolution :: ConflictResolution
  syncOnStartup :: bool
  syncOnSave :: bool
  excludedFolders :: "string list"
  excludedExtensions :: "string list"
  includeHiddenFiles :: bool
  lastSyncTime :: int
  debugMode :: bool

definition DEFAULT_SETTINGS :: GSyncSettings where
  "DEFAULT_SETTINGS =
     \<lparr> clientId = '''', clientSecret = '''',
       accessToken = '''', refreshToken = '''', tokenExpiry = 0,
       syncFolderId = '''', syncFolderName = ''ObsidianVault'',
       autoSync = False, autoSyncInterval = 30,
       conflictResolution = Newer, syncOnStartup = False, syncOnSave = False,
       excludedFolders = [''.obsidian'', ''.git'', ''.trash''],
       excludedExtensions = [], includeHiddenFiles = False,
       lastSyncTime = 0, debugMode = False \<rparr>"

text \<open>
  \<open>FileMetadata\<close>. The optional fields \<open>driveId\<close>, \<open>driveMtime\<close> and
  \<open>md5Checksum\<close> are \<open>None\<close> when undefined. The field \<open>size\<close> is named
  \<open>fsize\<close> here.
\<close>

record FileMetadata =
  path :: string
  name :: string
  mtime :: int
  fsize :: int
  isFolder :: bool
  driveId :: "string option"
  driveMtime :: "int option"
  md5Checksum :: "string option"

text \<open>\<open>ConflictInfo\<close>; its field \<open>path\<close> is named \<open>conflict_path\<close> here.\<close>

record ConflictInfo =
  localFile :: FileMetadata
  remoteFile :: FileMetadata
  conflict_path :: string

text \<open>\<open>x || 0\<close> for an optional number: undefined and 0 both give 0.\<close>

definition orZero :: "int option \<Rightarrow> int" where
  "orZero x = (case x of None \<Rightarrow> 0 | Some t \<Rightarrow> t)"

section \<open>Indices: \<open>Map<string, FileMetadata>\<close>\<close>

text \<open>
  A JavaScript \<open>Map\<close> iterates in insertion order, and \<open>set\<close> on a key that is
  present replaces the value where it stands. An index is an association list in
  insertion order.
\<close>

type_synonym index = "(string \<times> FileMetadata) list"

fun index_set :: "index \<Rightarrow> string \<Rightarrow> FileMetadata \<Rightarrow> index" where
  "index_set [] k v = [(k, v)]"
| "index_set ((k', v') # rest) k v =
     (if k' = k then (k, v) # rest else (k', v') # index_set rest k v)"

definition index_get :: "index \<Rightarrow> string \<Rightarrow> FileMetadata option" where
  "index_get idx k = map_of idx k"

definition index_has :: "index \<Rightarrow> string \<Rightarrow> bool" where
  "index_has idx k = (map_of idx k \<noteq> None)"

section \<open>The exclusion filter (syncService.ts, shouldExclude)\<close>

text \<open>The three rules of \<open>shouldExclude\<close>, in the order of the source.\<close>

definition excludedByFolder :: "GSyncSettings \<Rightarrow> string \<Rightarrow> bool" where
  "excludedByFolder S p =
     list_ex (\<lambda>folder. startsWith p folder \<or> startsWith p (''/'' @ folder))
       (excludedFolders S)"

definition excludedByExtension :: "GSyncSettings \<Rightarrow> string \<Rightarrow> bool" where
  "excludedByExtension S p = list_ex (\<lambda>e. endsWith p e) (excludedExtensions S)"

definition excludedByHidden :: "GSyncSettings \<Rightarrow> string \<Rightarrow> bool" where
  "excludedByHidden S p =
     (\<not> includeHiddenFiles S
      \<and> list_ex (\<lambda>part. startsWith part ''.'' \<and> part \<noteq> ''.'') (split_on CHR ''/'' p))"

definition shouldExclude :: "GSyncSettings \<Rightarrow> string \<Rightarrow> bool" where
  "shouldExclude S p =
     (excludedByFolder S p \<or> excludedByExtension S p \<or> excludedByHidden S p)"

text \<open>
  The folder rule in the words of the specification, for comparison with
  \<open>excludedByFolder\<close>: the excluded folder equals the path, or its segments are a
  leading sequence of the path's segments.
\<close>

fun leadingSegments :: "string list \<Rightarrow> string list \<Rightarrow> bool" where
  "leadingSegments [] qs = True"
| "leadingSegments (f # fs) [] = False"
| "leadingSegments (f # fs) (q # qs) = (f = q \<and> leadingSegments fs qs)"

definition spec_folderMatch :: "string \<Rightarrow> string \<Rightarrow> bool" where
  "spec_folderMatch folder p =
     (p = folder \<or> leadingSegments (split_on CHR ''/'' folder) (split_on CHR ''/'' p))"

section \<open>The planner (syncService.ts, createSyncPlan)\<close>

record SyncPlan =
  uploads :: "FileMetadata list"
  downloads :: "FileMetadata list"
  deleteLocal :: "FileMetadata list"
  deleteRemote :: "FileMetadata list"
  conflicts :: "ConflictInfo list"

definition emptyPlan :: SyncPlan where
  "emptyPlan = \<lparr> uploads = [], downloads = [], deleteLocal = [],
                 deleteRemote = [], conflicts = [] \<rparr>"

text \<open>
  The body of the first loop, for one entry \<open>[path, localFile]\<close> of the local index.
  \<open>push\<close> appends at the end.
\<close>

definition planLocalEntry ::
  "int \<Rightarrow> index \<Rightarrow> SyncPlan \<Rightarrow> string \<times> FileMetadata \<Rightarrow> SyncPlan" where
  "planLocalEntry lastSync remoteIndex plan entry =
     (let p = fst entry; lf = snd entry in
      case index_get remoteIndex p of
        None \<Rightarrow>
          if lastSync = 0 \<or> mtime lf > lastSync
          then plan\<lparr>uploads := uploads plan @ [lf]\<rparr>
          else plan\<lparr>deleteLocal := deleteLocal plan @ [lf]\<rparr>
      | Some rf \<Rightarrow>
          if \<not> isFolder lf \<and> \<not> isFolder rf then
            (let localNewer = (mtime lf > orZero (driveMtime rf));
                 remoteNewer = (orZero (driveMtime rf) > mtime lf) in
             if localNewer \<and> remoteNewer
             then plan\<lparr>conflicts := conflicts plan @
                    [\<lparr>localFile = lf, remoteFile = rf, conflict_path = p\<rparr>]\<rparr>
             else if localNewer \<and> mtime lf > lastSync
             then plan\<lparr>uploads := uploads plan @ [lf\<lparr>driveId := driveId rf\<rparr>]\<rparr>
             else if remoteNewer \<and> orZero (driveMtime rf) > lastSync
             then plan\<lparr>downloads := downloads plan @ [rf]\<rparr>
             else plan)
          else plan)"

text \<open>The body of the second loop, for one entry of the remote index.\<close>

definition planRemoteEntry ::
  "int \<Rightarrow> index \<Rightarrow> SyncPlan \<Rightarrow> string \<times> FileMetadata \<Rightarrow> SyncPlan" where
  "planRemoteEntry lastSync localIndex plan entry =
     (let p = fst entry; rf = snd entry in
      if \<not> index_has localIndex p then
        if lastSync = 0 \<or> orZero (driveMtime rf) > lastSync
        then plan\<lparr>downloads := downloads plan @ [rf]\<rparr>
        else plan\<lparr>deleteRemote := deleteRemote plan @ [rf]\<rparr>
      else plan)"

definition createSyncPlan :: "GSyncSettings \<Rightarrow> index \<Rightarrow> index \<Rightarrow> SyncPlan" where
  "createSyncPlan S localIndex remoteIndex =
     foldl (planRemoteEntry (lastSyncTime S) localIndex)
       (foldl (planLocalEntry (lastSyncTime S) remoteIndex) emptyPlan localIndex)
       remoteIndex"

text \<open>The paths a plan mentions, over its five categories.\<close>

definition plan_paths :: "SyncPlan \<Rightarrow> string list" where
  "plan_paths plan =
     map path (uploads plan) @ map path (downloads plan) @
     map path (deleteLocal plan) @ map path (deleteRemote plan) @
     map conflict_path (conflicts plan)"

text \<open>
  What the index builders guarantee of an index: a key occurs once, and an entry is
  stored under its own path.
\<close>

definition index_ok :: "index \<Rightarrow> bool" where
  "index_ok idx = (distinct (map fst idx) \<and> list_all (\<lambda>e. path (snd e) = fst e) idx)"

text \<open>
  A pair of entries under one path that the planner leaves alone: one of them is a
  folder, or the two modification times are equal.
\<close>

definition noop_pair :: "FileMetadata \<Rightarrow> FileMetadata \<Rightarrow> bool" where
  "noop_pair lf rf = (isFolder lf \<or> isFolder rf \<or> mtime lf = orZero (driveMtime rf))"

text \<open>
  Entries for the scenarios: a local entry and a remote entry for the path \<open>p\<close>, last
  modified at \<open>t\<close>.
\<close>

definition fileEntry :: "string \<Rightarrow> int \<Rightarrow> bool \<Rightarrow> FileMetadata" where
  "fileEntry p t folder =
     \<lparr> path = p, name = p, mtime = t, fsize = 0, isFolder = folder,
       driveId = None, driveMtime = None, md5Checksum = None \<rparr>"

definition remoteEntry :: "string \<Rightarrow> int \<Rightarrow> bool \<Rightarrow> FileMetadata" where
  "remoteEntry p t folder =
     \<lparr> path = p, name = p, mtime = t, fsize = 0, isFolder = folder,
       driveId = Some (''id-'' @ p), driveMtime = Some t, md5Checksum = None \<rparr>"

section \<open>Programs with effects\<close>

text \<open>
  An asynchronous method is a function from the state before to an outcome and the
  state after. The outcome is \<open>Inr\<close> of the value the promise resolves to, or \<open>Inl\<close>
  of the error it rejects with (the value a \<open>throw\<close> carries, rendered as text).
\<close>

type_synonym err = string

type_synonym ('s, 'a) prog = "'s \<Rightarrow> (err + 'a) \<times> 's"

definition ret :: "'a \<Rightarrow> ('s, 'a) prog" where
  "ret x = (\<lambda>s. (Inr x, s))"

definition throw :: "err \<Rightarrow> ('s, 'a) prog" where
  "throw e = (\<lambda>s. (Inl e, s))"

text \<open>\<open>const x = await m; f(x)\<close>: an error of \<open>m\<close> skips \<open>f\<close>.\<close>

definition bindP :: "('s, 'a) prog \<Rightarrow> ('a \<Rightarrow> ('s, 'b) prog) \<Rightarrow> ('s, 'b) prog" where
  "bindP m f = (\<lambda>s. case m s of
                       (Inl e, s') \<Rightarrow> (Inl e, s')
                     | (Inr x, s') \<Rightarrow> f x s')"

text \<open>\<open>try { m } catch (error) { h(error) }\<close>\<close>

definition tryCatch :: "('s, 'a) prog \<Rightarrow> (err \<Rightarrow> ('s, 'a) prog) \<Rightarrow> ('s, 'a) prog" where
  "tryCatch m h = (\<lambda>s. case m s of
                          (Inl e, s') \<Rightarrow> h e s'
                        | (Inr x, s') \<Rightarrow> (Inr x, s'))"

text \<open>\<open>try { m } finally { fin }\<close>, for a \<open>finally\<close> block that only assigns.\<close>

definition tryFinally :: "('s, 'a) prog \<Rightarrow> ('s \<Rightarrow> 's) \<Rightarrow> ('s, 'a) prog" where
  "tryFinally m fin = (\<lambda>s. case m s of (r, s') \<Rightarrow> (r, fin s'))"

section \<open>The collaborators: vault, Drive, clock\<close>

text \<open>
  \<open>TFile\<close> and \<open>TFolder\<close> of the Obsidian API, as far as the code reads them: path,
  name, and the children of a folder.
\<close>

datatype TAbstractFile =
    TFile string string
  | TFolder string string "TAbstractFile list"

fun t_path :: "TAbstractFile \<Rightarrow> string" where
  "t_path (TFile p n) = p"
| "t_path (TFolder p n cs) = p"

fun t_name :: "TAbstractFile \<Rightarrow> string" where
  "t_name (TFile p n) = n"
| "t_name (TFolder p n cs) = n"

fun instanceofTFile :: "TAbstractFile \<Rightarrow> bool" where
  "instanceofTFile (TFile p n) = True"
| "instanceofTFile (TFolder p n cs) = False"

record Stat =
  stat_mtime :: int
  stat_size :: int

type_synonym ArrayBuffer = string

text \<open>
  \<open>DriveFile\<close> (googleDrive.ts). \<open>df_modifiedTime\<close> is the instant that
  \<open>new Date(file.modifiedTime).getTime()\<close> yields and \<open>df_size\<close> the number that
  \<open>parseInt\<close> reads from the optional \<open>size\<close> string; the parsers themselves are not
  modelled.
\<close>

record DriveFile =
  df_id :: string
  df_name :: string
  df_mimeType :: string
  df_modifiedTime :: int
  df_size :: "int option"
  df_md5Checksum :: "string option"

text \<open>
  What \<open>listAllFiles\<close> answers during one walk of \<open>buildRemoteFileIndex\<close>: for a
  folder id either an error, or the files of the folder, each with the answer for its own
  id (read only when the file is a folder). The remote hierarchy is finite, so the
  answers form a finite tree.
\<close>

datatype RemoteListing =
    ListingFails err
  | Listing "(DriveFile \<times> RemoteListing) list"

text \<open>
  The collaborators are parameters. \<open>'w\<close> is the state of everything outside the sync
  service (vault, Drive, persisted data, clock); every asynchronous call may change it
  and may fail. The Drive methods other than \<open>buildRemoteFileIndex\<close> reach the network
  through \<open>makeRequest\<close> and are taken as they are called in syncService.ts.
\<close>

record 'w env =
  now :: "'w \<Rightarrow> int"
  saveData :: "GSyncSettings \<Rightarrow> 'w \<Rightarrow> (err + unit) \<times> 'w"
  drive_getOrCreateSyncFolder :: "string \<Rightarrow> 'w \<Rightarrow> (err + string) \<times> 'w"
  drive_listing :: "string \<Rightarrow> 'w \<Rightarrow> RemoteListing \<times> 'w"
  drive_ensureFolderPath :: "string \<Rightarrow> string \<Rightarrow> 'w \<Rightarrow> (err + string) \<times> 'w"
  drive_uploadFile ::
    "string \<Rightarrow> ArrayBuffer \<Rightarrow> string \<Rightarrow> string \<Rightarrow> string option \<Rightarrow> 'w \<Rightarrow> (err + unit) \<times> 'w"
  drive_downloadFile :: "string \<Rightarrow> 'w \<Rightarrow> (err + ArrayBuffer) \<times> 'w"
  drive_moveToTrash :: "string \<Rightarrow> 'w \<Rightarrow> (err + unit) \<times> 'w"
  vault_getFiles :: "'w \<Rightarrow> TAbstractFile list"
  vault_getRoot :: "'w \<Rightarrow> TAbstractFile"
  vault_getAbstractFileByPath :: "string \<Rightarrow> 'w \<Rightarrow> TAbstractFile option"
  vault_create :: "string \<Rightarrow> string \<Rightarrow> 'w \<Rightarrow> (err + unit) \<times> 'w"
  vault_createFolder :: "string \<Rightarrow> 'w \<Rightarrow> (err + unit) \<times> 'w"
  vault_trash :: "TAbstractFile \<Rightarrow> 'w \<Rightarrow> (err + unit) \<times> 'w"
  adapter_stat :: "string \<Rightarrow> 'w \<Rightarrow> (err + Stat option) \<times> 'w"
  adapter_read :: "string \<Rightarrow> 'w \<Rightarrow> (err + string) \<times> 'w"
  adapter_readBinary :: "string \<Rightarrow> 'w \<Rightarrow> (err + ArrayBuffer) \<times> 'w"
  adapter_writeBinary :: "string \<Rightarrow> ArrayBuffer \<Rightarrow> 'w \<Rightarrow> (err + unit) \<times> 'w"
  adapter_exists :: "string \<Rightarrow> 'w \<Rightarrow> (err + bool) \<times> 'w"
  adapter_list :: "string \<Rightarrow> 'w \<Rightarrow> (err + string list \<times> string list) \<times> 'w"
  adapter_rmdir :: "string \<Rightarrow> 'w \<Rightarrow> (err + unit) \<times> 'w"

section \<open>The state of the sync service\<close>

datatype StatusKind = Idle | Syncing | Error | Authenticated | Unauthenticated

record SyncStatus =
  status :: StatusKind
  message :: string
  progress :: "nat option"
  total :: "nat option"

text \<open>
  \<open>isSyncing\<close> is the field of \<open>SyncService\<close>, \<open>settings\<close> is \<open>plugin.settings\<close>.
  \<open>statuses\<close>, \<open>notices\<close> and \<open>console\<close> record, oldest first, what the service
  passes to \<open>updateStatus\<close>, \<open>new Notice\<close> and \<open>console.error\<close>/\<open>console.log\<close>;
  these sinks return nothing and are taken not to throw.
\<close>

record 'w state =
  world :: 'w
  isSyncing :: bool
  settings :: GSyncSettings
  statuses :: "SyncStatus list"
  notices :: "string list"
  console :: "string list"

text \<open>A call of a collaborator: it acts on the world only.\<close>

definition call :: "('w \<Rightarrow> (err + 'a) \<times> 'w) \<Rightarrow> ('w state, 'a) prog" where
  "call f = (\<lambda>s. case f (world s) of (r, w') \<Rightarrow> (r, s\<lparr>world := w'\<rparr>))"

definition updateStatus :: "SyncStatus \<Rightarrow> ('w state, unit) prog" where
  "updateStatus st = (\<lambda>s. (Inr (), s\<lparr>statuses := statuses s @ [st]\<rparr>))"

definition notice :: "string \<Rightarrow> ('w state, unit) prog" where
  "notice msg = (\<lambda>s. (Inr (), s\<lparr>notices := notices s @ [msg]\<rparr>))"

definition consoleLine :: "string \<Rightarrow> ('w state, unit) prog" where
  "consoleLine msg = (\<lambda>s. (Inr (), s\<lparr>console := console s @ [msg]\<rparr>))"

definition syncingStatus :: "string \<Rightarrow> SyncStatus" where
  "syncingStatus msg = \<lparr> status = Syncing, message = msg, progress = None, total = None \<rparr>"

text \<open>\<open>plugin.saveSettings()\<close> (main.ts): \<open>await this.saveData(this.settings)\<close>.\<close>

definition saveSettings :: "'w env \<Rightarrow> ('w state, unit) prog" where
  "saveSettings E = (\<lambda>s. call (saveData E (settings s)) s)"

text \<open>\<open>authService.isAuthenticated()\<close> (googleAuth.ts).\<close>

definition isAuthenticated :: "'w env \<Rightarrow> 'w state \<Rightarrow> bool" where
  "isAuthenticated E s =
     (accessToken (settings s) \<noteq> '''' \<and> refreshToken (settings s) \<noteq> ''''
      \<and> now E (world s) < tokenExpiry (settings s))"

section \<open>The indexers\<close>

subsection \<open>buildRemoteFileIndex (googleDrive.ts)\<close>

definition remoteMetadata :: "string \<Rightarrow> DriveFile \<Rightarrow> FileMetadata" where
  "remoteMetadata p file =
     \<lparr> path = p, name = df_name file, mtime = df_modifiedTime file,
       fsize = orZero (df_size file),
       isFolder = (df_mimeType file = ''application/vnd.google-apps.folder''),
       driveId = Some (df_id file), driveMtime = Some (df_modifiedTime file),
       md5Checksum = df_md5Checksum file \<rparr>"

text \<open>\<open>subIndex.forEach((value, key) => index.set(key, value))\<close>\<close>

definition index_merge :: "index \<Rightarrow> index \<Rightarrow> index" where
  "index_merge idx subIndex = foldl (\<lambda>acc kv. index_set acc (fst kv) (snd kv)) idx subIndex"

text \<open>
  \<open>buildRemoteFileIndex\<close> reads the answer of \<open>listAllFiles\<close> for the folder and
  \<open>remoteLoop\<close> is its \<open>for\<close> loop, with the index built so far. No entry is tested
  against \<open>shouldExclude\<close>.
\<close>

fun buildRemoteFileIndex :: "RemoteListing \<Rightarrow> string \<Rightarrow> err + index"
  and remoteLoop :: "(DriveFile \<times> RemoteListing) list \<Rightarrow> string \<Rightarrow> index \<Rightarrow> err + index" where
  "buildRemoteFileIndex (ListingFails e) basePath = Inl e"
| "buildRemoteFileIndex (Listing files) basePath = remoteLoop files basePath []"
| "remoteLoop [] basePath idx = Inr idx"
| "remoteLoop (entry # rest) basePath idx =
     (let file = fst entry;
          p = (if basePath \<noteq> '''' then basePath @ ''/'' @ df_name file else df_name file);
          idx1 = index_set idx p (remoteMetadata p file) in
      if df_mimeType file = ''application/vnd.google-apps.folder'' then
        (case buildRemoteFileIndex (snd entry) p of
           Inl e \<Rightarrow> Inl e
         | Inr subIndex \<Rightarrow> remoteLoop rest basePath (index_merge idx1 subIndex))
      else remoteLoop rest basePath idx1)"

subsection \<open>buildLocalFileIndex (syncService.ts)\<close>

definition processFile :: "'w env \<Rightarrow> TAbstractFile \<Rightarrow> index \<Rightarrow> ('w state, index) prog" where
  "processFile E file idx = (\<lambda>s.
     if shouldExclude (settings s) (t_path file) then ret idx s
     else bindP (call (adapter_stat E (t_path file)))
            (\<lambda>st. case st of
                     None \<Rightarrow> ret idx
                   | Some st' \<Rightarrow>
                       ret (index_set idx (t_path file)
                              \<lparr> path = t_path file, name = t_name file,
                                mtime = stat_mtime st', fsize = stat_size st',
                                isFolder = False, driveId = None, driveMtime = None,
                                md5Checksum = None \<rparr>)) s)"

fun processFiles :: "'w env \<Rightarrow> TAbstractFile list \<Rightarrow> index \<Rightarrow> ('w state, index) prog" where
  "processFiles E [] idx = ret idx"
| "processFiles E (file # rest) idx = bindP (processFile E file idx) (processFiles E rest)"

definition processFolder :: "GSyncSettings \<Rightarrow> TAbstractFile \<Rightarrow> index \<Rightarrow> index" where
  "processFolder S folder idx =
     (if shouldExclude S (t_path folder) then idx
      else if t_path folder \<noteq> ''/'' then
        index_set idx (t_path folder)
          \<lparr> path = t_path folder, name = t_name folder, mtime = 0, fsize = 0,
            isFolder = True, driveId = None, driveMtime = None, md5Checksum = None \<rparr>
      else idx)"

text \<open>
  \<open>processAllFolders\<close>: the folder itself, then every child that is a \<open>TFolder\<close>; a
  child that is a file is passed over.
\<close>

fun processAllFolders :: "GSyncSettings \<Rightarrow> TAbstractFile \<Rightarrow> index \<Rightarrow> index" where
  "processAllFolders S (TFile p n) idx = idx"
| "processAllFolders S (TFolder p n cs) idx =
     foldl (\<lambda>acc child. processAllFolders S child acc) (processFolder S (TFolder p n cs) idx) cs"

definition buildLocalFileIndex :: "'w env \<Rightarrow> ('w state, index) prog" where
  "buildLocalFileIndex E = (\<lambda>s.
     bindP (processFiles E (vault_getFiles E (world s)) [])
       (\<lambda>idx s'. ret (processAllFolders (settings s') (vault_getRoot E (world s')) idx) s') s)"

section \<open>The executor (syncService.ts)\<close>

subsection \<open>Pure helpers\<close>

text \<open>\<open>p.substring(0, p.lastIndexOf('/'))\<close>: empty when the path has no \<open>/\<close>.\<close>

definition parentPathOf :: "string \<Rightarrow> string" where
  "parentPathOf p = rev (tl (dropWhile (\<lambda>c. c \<noteq> CHR ''/'') (rev p)))"

text \<open>The decimal text of a number, as a template literal renders it.\<close>

definition digitChar :: "nat \<Rightarrow> char" where
  "digitChar d =
     (if d = 0 then CHR ''0'' else if d = 1 then CHR ''1'' else if d = 2 then CHR ''2''
      else if d = 3 then CHR ''3'' else if d = 4 then CHR ''4'' else if d = 5 then CHR ''5''
      else if d = 6 then CHR ''6'' else if d = 7 then CHR ''7'' else if d = 8 then CHR ''8''
      else CHR ''9'')"

fun showNat :: "nat \<Rightarrow> string" where
  "showNat n = (if n < 10 then [digitChar n] else showNat (n div 10) @ [digitChar (n mod 10)])"

declare showNat.simps [simp del]

definition showInt :: "int \<Rightarrow> string" where
  "showInt i = (if i < 0 then CHR ''-'' # showNat (nat (- i)) else showNat (nat i))"

text \<open>
  The new name of the keep-both policy (resolveConflict, case \<open>'ask'\<close>):
  \<open>parts = path.split('.')\<close>, \<open>ext = parts.length > 1 ? '.' + parts.pop() : ''\<close>,
  \<open>base = parts.join('.')\<close>, and the name is \<open>base_conflict_<Date.now()>ext\<close>.
\<close>

definition conflictPath :: "string \<Rightarrow> int \<Rightarrow> string" where
  "conflictPath p t =
     (let parts = split_on CHR ''.'' p;
          extension = (if length parts > 1 then ''.'' @ last parts else '''');
          base = join ''.'' (if length parts > 1 then butlast parts else parts)
      in base @ ''_conflict_'' @ showInt t @ extension)"

text \<open>
  The new name in the words of the specification, for comparison with \<open>conflictPath\<close>:
  marker and timestamp go before the extension of the file, that is before the last
  dot of the file name (the last segment of the path), and at the end of the path when
  the file name has no dot.
\<close>

definition spec_conflictPath :: "string \<Rightarrow> int \<Rightarrow> string" where
  "spec_conflictPath p t =
     (let fileName = last (split_on CHR ''/'' p) in
      if CHR ''.'' \<in> set fileName then
        (let extension = last (split_on CHR ''.'' fileName) in
         take (length p - length extension - 1) p
         @ ''_conflict_'' @ showInt t @ ''.'' @ extension)
      else p @ ''_conflict_'' @ showInt t)"

text \<open>\<open>toLowerCase\<close> on the letters A to Z; other units are left as they are.\<close>

definition toLowerCase :: "string \<Rightarrow> string" where
  "toLowerCase str =
     map (\<lambda>c. case map_of (zip ''ABCDEFGHIJKLMNOPQRSTUVWXYZ'' ''abcdefghijklmnopqrstuvwxyz'') c of
                 None \<Rightarrow> c | Some l \<Rightarrow> l) str"

definition mimeTypes :: "(string \<times> string) list" where
  "mimeTypes =
     [(''md'', ''text/markdown''), (''txt'', ''text/plain''), (''json'', ''application/json''),
      (''css'', ''text/css''), (''js'', ''application/javascript''), (''png'', ''image/png''),
      (''jpg'', ''image/jpeg''), (''jpeg'', ''image/jpeg''), (''gif'', ''image/gif''),
      (''svg'', ''image/svg+xml''), (''pdf'', ''application/pdf''), (''mp3'', ''audio/mpeg''),
      (''mp4'', ''video/mp4''), (''webp'', ''image/webp''), (''canvas'', ''application/json'')]"

definition getMimeType :: "string \<Rightarrow> string" where
  "getMimeType p =
     (case map_of mimeTypes (toLowerCase (last (split_on CHR ''.'' p))) of
        None \<Rightarrow> ''application/octet-stream''
      | Some m \<Rightarrow> m)"

subsection \<open>Transfers\<close>

definition debugLog :: "string \<Rightarrow> ('w state, unit) prog" where
  "debugLog msg = (\<lambda>s. if debugMode (settings s) then consoleLine msg s else ret () s)"

text \<open>
  \<open>uploadFile\<close>. \<open>uploadAttempt\<close> is its \<open>try\<close> block; the \<open>catch\<close> block logs and
  throws the error again.
\<close>

definition uploadAttempt :: "'w env \<Rightarrow> FileMetadata \<Rightarrow> ('w state, unit) prog" where
  "uploadAttempt E file =
     bindP (call (adapter_readBinary E (path file))) (\<lambda>content.
     bindP (\<lambda>s. if parentPathOf (path file) \<noteq> ''''
                then call (drive_ensureFolderPath E (parentPathOf (path file))
                             (syncFolderId (settings s))) s
                else ret (syncFolderId (settings s)) s) (\<lambda>parentId.
     bindP (call (drive_uploadFile E (name file) content (getMimeType (path file))
                    parentId (driveId file))) (\<lambda>_.
     debugLog (''Uploaded: '' @ path file))))"

definition uploadFile :: "'w env \<Rightarrow> FileMetadata \<Rightarrow> ('w state, unit) prog" where
  "uploadFile E file =
     tryCatch (uploadAttempt E file)
       (\<lambda>error. bindP (consoleLine (''Failed to upload '' @ path file @ '': '' @ error))
                  (\<lambda>_. throw error))"

text \<open>
  \<open>downloadFile\<close>: without a drive id (undefined or empty) it logs and returns.
  \<open>downloadAttempt\<close> is its \<open>try\<close> block; the \<open>catch\<close> block logs and throws the error
  again.
\<close>

definition downloadAttempt :: "'w env \<Rightarrow> FileMetadata \<Rightarrow> string \<Rightarrow> ('w state, unit) prog" where
  "downloadAttempt E file fileId =
     bindP (call (drive_downloadFile E fileId)) (\<lambda>content.
     bindP (if parentPathOf (path file) \<noteq> '''' then
              bindP (call (adapter_exists E (parentPathOf (path file)))) (\<lambda>present.
                if \<not> present then call (vault_createFolder E (parentPathOf (path file)))
                else ret ())
            else ret ()) (\<lambda>_.
     bindP (call (adapter_writeBinary E (path file) content)) (\<lambda>_.
     debugLog (''Downloaded: '' @ path file))))"

definition downloadFile :: "'w env \<Rightarrow> FileMetadata \<Rightarrow> ('w state, unit) prog" where
  "downloadFile E file =
     (case driveId file of
        None \<Rightarrow> consoleLine (''No drive ID for file: '' @ path file)
      | Some fileId \<Rightarrow>
          if fileId = '''' then consoleLine (''No drive ID for file: '' @ path file)
          else tryCatch (downloadAttempt E file fileId)
                 (\<lambda>error. bindP (consoleLine (''Failed to download '' @ path file @ '': '' @ error))
                            (\<lambda>_. throw error)))"

text \<open>\<open>deleteLocalFile\<close>: the \<open>catch\<close> block logs and returns.\<close>

definition deleteLocalFile :: "'w env \<Rightarrow> FileMetadata \<Rightarrow> ('w state, unit) prog" where
  "deleteLocalFile E file =
     tryCatch
       (bindP
          (if isFolder file then
             bindP (call (adapter_exists E (path file))) (\<lambda>present.
               if present then
                 bindP (call (adapter_list E (path file))) (\<lambda>listed.
                   if fst listed = [] \<and> snd listed = []
                   then call (adapter_rmdir E (path file)) else ret ())
               else ret ())
           else
             bindP (call (adapter_exists E (path file))) (\<lambda>present.
               if present then
                 (\<lambda>s. case vault_getAbstractFileByPath E (path file) (world s) of
                        None \<Rightarrow> ret () s
                      | Some abstractFile \<Rightarrow>
                          if instanceofTFile abstractFile
                          then call (vault_trash E abstractFile) s else ret () s)
               else ret ()))
          (\<lambda>_. debugLog (''Deleted local: '' @ path file)))
       (\<lambda>error. consoleLine (''Failed to delete local '' @ path file @ '': '' @ error))"

text \<open>\<open>deleteRemoteFile\<close>: the \<open>catch\<close> block logs and returns.\<close>

definition deleteRemoteFile :: "'w env \<Rightarrow> FileMetadata \<Rightarrow> ('w state, unit) prog" where
  "deleteRemoteFile E file =
     (case driveId file of
        None \<Rightarrow> ret ()
      | Some fileId \<Rightarrow>
          if fileId = '''' then ret ()
          else tryCatch
                 (bindP (call (drive_moveToTrash E fileId))
                    (\<lambda>_. debugLog (''Deleted remote: '' @ path file)))
                 (\<lambda>error. consoleLine (''Failed to delete remote '' @ path file @ '': '' @ error)))"

subsection \<open>resolveConflict\<close>

definition resolveConflict :: "'w env \<Rightarrow> ConflictInfo \<Rightarrow> ('w state, unit) prog" where
  "resolveConflict E conflict = (\<lambda>s.
     case conflictResolution (settings s) of
       Local \<Rightarrow> uploadFile E (localFile conflict) s
     | Remote \<Rightarrow> downloadFile E (remoteFile conflict) s
     | Newer \<Rightarrow>
         if mtime (localFile conflict) > orZero (driveMtime (remoteFile conflict))
         then uploadFile E (localFile conflict) s
         else downloadFile E (remoteFile conflict) s
     | Ask \<Rightarrow>
         bindP (call (adapter_read E (conflict_path conflict))) (\<lambda>content.
         bindP (call (vault_create E
                        (conflictPath (conflict_path conflict) (now E (world s))) content)) (\<lambda>_.
         downloadFile E (remoteFile conflict))) s)"

subsection \<open>executeSyncPlan\<close>

text \<open>
  One \<open>for\<close> loop of \<open>executeSyncPlan\<close>: \<open>skip\<close> is the \<open>continue\<close> test, \<open>label\<close>
  the status message, \<open>act\<close> the awaited transfer, \<open>n\<close> the counter \<open>progress\<close>.
  Nothing in the loop catches: an error of \<open>act\<close> ends the loop.
\<close>

fun itemLoop ::
  "('i \<Rightarrow> bool) \<Rightarrow> ('i \<Rightarrow> string) \<Rightarrow> ('i \<Rightarrow> ('w state, unit) prog) \<Rightarrow> nat \<Rightarrow> 'i list \<Rightarrow> nat
   \<Rightarrow> ('w state, nat) prog" where
  "itemLoop skip label act tot [] n = ret n"
| "itemLoop skip label act tot (x # xs) n =
     (if skip x then itemLoop skip label act tot xs n
      else bindP (updateStatus \<lparr> status = Syncing, message = label x,
                                 progress = Some (n + 1), total = Some tot \<rparr>) (\<lambda>_.
           bindP (act x) (\<lambda>_. itemLoop skip label act tot xs (n + 1))))"

text \<open>
  \<open>executeSyncPlan\<close> runs five loops in a row. The first three (conflicts, uploads,
  downloads) are \<open>executeTransfers\<close>, the last two (local and remote deletions)
  \<open>executeDeletions\<close>; the counter \<open>progress\<close> is handed from loop to loop.
\<close>

definition executeTransfers :: "'w env \<Rightarrow> SyncPlan \<Rightarrow> nat \<Rightarrow> ('w state, nat) prog" where
  "executeTransfers E plan tot =
     bindP (itemLoop (\<lambda>_. False) (\<lambda>c. ''Resolving conflict: '' @ conflict_path c)
              (resolveConflict E) tot (conflicts plan) 0) (\<lambda>n1.
     bindP (itemLoop isFolder (\<lambda>f. ''Uploading: '' @ path f)
              (uploadFile E) tot (uploads plan) n1) (\<lambda>n2.
     itemLoop isFolder (\<lambda>f. ''Downloading: '' @ path f)
       (downloadFile E) tot (downloads plan) n2))"

definition executeDeletions :: "'w env \<Rightarrow> SyncPlan \<Rightarrow> nat \<Rightarrow> nat \<Rightarrow> ('w state, unit) prog" where
  "executeDeletions E plan tot n3 =
     bindP (itemLoop (\<lambda>_. False) (\<lambda>f. ''Deleting local: '' @ path f)
              (deleteLocalFile E) tot (deleteLocal plan) n3) (\<lambda>n4.
     bindP (itemLoop (\<lambda>_. False) (\<lambda>f. ''Deleting remote: '' @ path f)
              (deleteRemoteFile E) tot (deleteRemote plan) n4) (\<lambda>_. ret ()))"

definition planTotal :: "SyncPlan \<Rightarrow> nat" where
  "planTotal plan =
     length (uploads plan) + length (downloads plan) + length (deleteLocal plan)
     + length (deleteRemote plan) + length (conflicts plan)"

definition executeSyncPlan ::
  "'w env \<Rightarrow> SyncPlan \<Rightarrow> index \<Rightarrow> index \<Rightarrow> ('w state, unit) prog" where
  "executeSyncPlan E plan localIndex remoteIndex =
     bindP (executeTransfers E plan (planTotal plan)) (executeDeletions E plan (planTotal plan))"


section \<open>The session (syncService.ts, sync)\<close>

text \<open>The \<open>try\<close> block up to and including \<open>executeSyncPlan\<close>.\<close>

definition ensureSyncFolder :: "'w env \<Rightarrow> ('w state, unit) prog" where
  "ensureSyncFolder E = (\<lambda>s.
     if syncFolderId (settings s) = '''' then
       bindP (updateStatus (syncingStatus ''Creating sync folder...'')) (\<lambda>_.
       bindP (\<lambda>s1. call (drive_getOrCreateSyncFolder E (syncFolderName (settings s1))) s1)
         (\<lambda>folderId.
       bindP (\<lambda>s2. ret () (s2\<lparr>settings := (settings s2)\<lparr>syncFolderId := folderId\<rparr>\<rparr>)) (\<lambda>_.
       saveSettings E))) s
     else ret () s)"

definition syncUntilExecuted :: "'w env \<Rightarrow> ('w state, unit) prog" where
  "syncUntilExecuted E =
     bindP (ensureSyncFolder E) (\<lambda>_.
     bindP (updateStatus (syncingStatus ''Scanning local files...'')) (\<lambda>_.
     bindP (buildLocalFileIndex E) (\<lambda>localIndex.
     bindP (updateStatus (syncingStatus ''Scanning remote files...'')) (\<lambda>_.
     bindP (\<lambda>s. case drive_listing E (syncFolderId (settings s)) (world s) of
                  (listing, w') \<Rightarrow>
                    (buildRemoteFileIndex listing '''', s\<lparr>world := w'\<rparr>)) (\<lambda>remoteIndex.
     bindP (updateStatus (syncingStatus ''Planning sync...'')) (\<lambda>_.
     (\<lambda>s. executeSyncPlan E (createSyncPlan (settings s) localIndex remoteIndex)
             localIndex remoteIndex s)))))))"

text \<open>The whole \<open>try\<close> block: after the execution, the watermark is set from the clock.\<close>

definition syncBody :: "'w env \<Rightarrow> ('w state, unit) prog" where
  "syncBody E =
     bindP (syncUntilExecuted E) (\<lambda>_.
     bindP (\<lambda>s. ret () (s\<lparr>settings := (settings s)\<lparr>lastSyncTime := now E (world s)\<rparr>\<rparr>)) (\<lambda>_.
     bindP (saveSettings E) (\<lambda>_.
     bindP (updateStatus \<lparr> status = Idle, message = ''Sync completed'',
                            progress = None, total = None \<rparr>) (\<lambda>_.
     notice ''Sync completed successfully''))))"

definition syncCatch :: "err \<Rightarrow> ('w state, unit) prog" where
  "syncCatch error =
     bindP (consoleLine (''Sync error: '' @ error)) (\<lambda>_.
     bindP (updateStatus \<lparr> status = Error, message = ''Sync failed: '' @ error,
                            progress = None, total = None \<rparr>) (\<lambda>_.
     notice (''Sync failed: '' @ error)))"

definition sync :: "'w env \<Rightarrow> ('w state, unit) prog" where
  "sync E = (\<lambda>s.
     if isSyncing s then notice ''Sync already in progress'' s
     else if \<not> isAuthenticated E s then notice ''Please authenticate with Google Drive first'' s
     else bindP (\<lambda>s0. ret () (s0\<lparr>isSyncing := True\<rparr>)) (\<lambda>_.
          bindP (updateStatus (syncingStatus ''Starting sync...'')) (\<lambda>_.
          tryFinally (tryCatch (syncBody E) syncCatch) (\<lambda>s1. s1\<lparr>isSyncing := False\<rparr>))) s)"

text \<open>The state in which \<open>sync\<close> enters its \<open>try\<close> block.\<close>

definition started :: "'w state \<Rightarrow> 'w state" where
  "started s = s\<lparr>isSyncing := True,
                 statuses := statuses s @ [syncingStatus ''Starting sync...'']\<rparr>"


section \<open>A small world to run the service in\<close>

text \<open>
  A vault and a Drive folder without subfolders. Local files are (path, mtime, content),
  remote files (id, name, modified time, content). Every asynchronous call takes one
  millisecond of \<open>clock\<close>. A transfer that touches a path, name or id listed in
  \<open>failing\<close> fails.
\<close>

record sim =
  clock :: int
  localFiles :: "(string \<times> int \<times> string) list"
  remoteFiles :: "(string \<times> string \<times> int \<times> string) list"
  failing :: "string list"

definition tick :: "sim \<Rightarrow> sim" where
  "tick w = w\<lparr>clock := clock w + 1\<rparr>"

definition simDriveFile :: "string \<times> string \<times> int \<times> string \<Rightarrow> DriveFile \<times> RemoteListing" where
  "simDriveFile r =
     (\<lparr> df_id = fst r, df_name = fst (snd r), df_mimeType = ''text/markdown'',
        df_modifiedTime = fst (snd (snd r)),
        df_size = Some (int (length (snd (snd (snd r))))), df_md5Checksum = None \<rparr>,
      Listing [])"

definition simRead :: "string \<Rightarrow> sim \<Rightarrow> (err + string) \<times> sim" where
  "simRead p w =
     (if p \<in> set (failing w) then (Inl ''EIO'', tick w)
      else case map_of (localFiles w) p of
             None \<Rightarrow> (Inl ''ENOENT'', tick w)
           | Some f \<Rightarrow> (Inr (snd f), tick w))"

definition simWrite :: "string \<Rightarrow> string \<Rightarrow> sim \<Rightarrow> (err + unit) \<times> sim" where
  "simWrite p content w =
     (Inr (), tick (w\<lparr>localFiles :=
        filter (\<lambda>f. fst f \<noteq> p) (localFiles w) @ [(p, clock w, content)]\<rparr>))"

definition simEnv :: "sim env" where
  "simEnv =
     \<lparr> now = clock,
       saveData = (\<lambda>S w. (Inr (), tick w)),
       drive_getOrCreateSyncFolder = (\<lambda>n w. (Inr ''root-id'', tick w)),
       drive_listing = (\<lambda>i w. (Listing (map simDriveFile (remoteFiles w)), tick w)),
       drive_ensureFolderPath = (\<lambda>p root w. (Inr root, tick w)),
       drive_uploadFile = (\<lambda>n content mime parent existing w.
          if n \<in> set (failing w) then (Inl ''Drive API error: 500'', tick w)
          else (Inr (), tick (w\<lparr>remoteFiles :=
                  filter (\<lambda>r. fst (snd r) \<noteq> n) (remoteFiles w)
                  @ [(''id-'' @ n, n, clock w, content)]\<rparr>))),
       drive_downloadFile = (\<lambda>i w.
          if i \<in> set (failing w) then (Inl ''Drive API error: 500'', tick w)
          else case map_of (remoteFiles w) i of
                 None \<Rightarrow> (Inl ''Drive API error: 404'', tick w)
               | Some r \<Rightarrow> (Inr (snd (snd r)), tick w)),
       drive_moveToTrash = (\<lambda>i w.
          if i \<in> set (failing w) then (Inl ''Drive API error: 500'', tick w)
          else (Inr (), tick (w\<lparr>remoteFiles := filter (\<lambda>r. fst r \<noteq> i) (remoteFiles w)\<rparr>))),
       vault_getFiles = (\<lambda>w. map (\<lambda>f. TFile (fst f) (fst f)) (localFiles w)),
       vault_getRoot = (\<lambda>w. TFolder ''/'' '''' (map (\<lambda>f. TFile (fst f) (fst f)) (localFiles w))),
       vault_getAbstractFileByPath = (\<lambda>p w.
          case map_of (localFiles w) p of None \<Rightarrow> None | Some f \<Rightarrow> Some (TFile p p)),
       vault_create = (\<lambda>p content w.
          if map_of (localFiles w) p \<noteq> None then (Inl ''File already exists.'', tick w)
          else simWrite p content w),
       vault_createFolder = (\<lambda>p w. (Inr (), tick w)),
       vault_trash = (\<lambda>f w.
          if t_path f \<in> set (failing w) then (Inl ''EPERM'', tick w)
          else (Inr (), tick (w\<lparr>localFiles := filter (\<lambda>l. fst l \<noteq> t_path f) (localFiles w)\<rparr>))),
       adapter_stat = (\<lambda>p w.
          (Inr (case map_of (localFiles w) p of
                  None \<Rightarrow> None
                | Some f \<Rightarrow> Some \<lparr> stat_mtime = fst f, stat_size = int (length (snd f)) \<rparr>),
           tick w)),
       adapter_read = simRead,
       adapter_readBinary = simRead,
       adapter_writeBinary = simWrite,
       adapter_exists = (\<lambda>p w. (Inr (map_of (localFiles w) p \<noteq> None), tick w)),
       adapter_list = (\<lambda>p w. (Inr ([], []), tick w)),
       adapter_rmdir = (\<lambda>p w. (Inr (), tick w)) \<rparr>"

text \<open>An authenticated service that is idle, with the sync folder already known.\<close>

definition simSettings :: GSyncSettings where
  "simSettings =
     DEFAULT_SETTINGS\<lparr> accessToken := ''token'', refreshToken := ''refresh'',
       tokenExpiry := 1000000, syncFolderId := ''root-id'' \<rparr>"

definition simState :: "GSyncSettings \<Rightarrow> sim \<Rightarrow> sim state" where
  "simState S w =
     \<lparr> world = w, isSyncing = False, settings = S, statuses = [], notices = [],
       console = [] \<rparr>"


section \<open>Scenarios\<close>

text \<open>
  Scenario A of the specification run in the small world: the run starts at clock
  1000 with one local file and an empty remote folder.
\<close>

definition scenarioA :: "sim state" where
  "scenarioA = simState simSettings
     \<lparr> clock = 1000, localFiles = [(''a.md'', 100, ''hello'')], remoteFiles = [],
       failing = [] \<rparr>"

text \<open>Two local files to upload; reading the first one fails.\<close>

definition scenarioFail :: "sim state" where
  "scenarioFail = simState (simSettings\<lparr>lastSyncTime := 50\<rparr>)
     \<lparr> clock = 1000, localFiles = [(''a.md'', 100, ''hello''), (''b.md'', 100, ''bye'')],
       remoteFiles = [], failing = [''a.md''] \<rparr>"


text \<open>
  A remote tree that holds \<open>.obsidian/app.json\<close>, last modified at 400.
\<close>

definition obsidianFolder :: DriveFile where
  "obsidianFolder =
     \<lparr> df_id = ''1'', df_name = ''.obsidian'',
       df_mimeType = ''application/vnd.google-apps.folder'', df_modifiedTime = 400,
       df_size = None, df_md5Checksum = None \<rparr>"

definition appJson :: DriveFile where
  "appJson =
     \<lparr> df_id = ''2'', df_name = ''app.json'', df_mimeType = ''application/json'',
       df_modifiedTime = 400, df_size = Some 10, df_md5Checksum = None \<rparr>"

definition obsidianRemote :: RemoteListing where
  "obsidianRemote = Listing [(obsidianFolder, Listing [(appJson, Listing [])])]"

text \<open>A conflict under the keep-both policy, for a path \<open>p\<close> present on both sides.\<close>

definition askState :: "string \<Rightarrow> sim state" where
  "askState p = simState (simSettings\<lparr>conflictResolution := Ask\<rparr>)
     \<lparr> clock = 1000, localFiles = [(p, 600, ''local text'')],
       remoteFiles = [(''id-'' @ p, p, 700, ''remote text'')], failing = [] \<rparr>"

definition askConflict :: "string \<Rightarrow> ConflictInfo" where
  "askConflict p =
     \<lparr> localFile = fileEntry p 600 False, remoteFile = remoteEntry p 700 False,
       conflict_path = p \<rparr>"

text \<open>
  What holds of the local index while it is built: it is well formed and none of its
  paths is excluded.
\<close>

definition local_inv :: "GSyncSettings \<Rightarrow> index \<Rightarrow> bool" where
  "local_inv S idx = (index_ok idx \<and> (\<forall>e \<in> set idx. \<not> shouldExclude S (fst e)))"

section \<open>Properties of the planner\<close>

subsection \<open>The conflict branch\<close>

lemma conflicts_planLocalEntry: "conflicts (planLocalEntry ls ri plan e) = conflicts plan"
  by (simp add: planLocalEntry_def Let_def split: option.split)

lemma conflicts_planRemoteEntry: "conflicts (planRemoteEntry ls li plan e) = conflicts plan"
  by (simp add: planRemoteEntry_def Let_def)

lemma conflicts_foldl_local:
  "conflicts (foldl (planLocalEntry ls ri) plan es) = conflicts plan"
  by (induction es arbitrary: plan) (simp_all add: conflicts_planLocalEntry)

lemma conflicts_foldl_remote:
  "conflicts (foldl (planRemoteEntry ls li) plan es) = conflicts plan"
  by (induction es arbitrary: plan) (simp_all add: conflicts_planRemoteEntry)

text \<open>
  C8. For every pair of indices and every watermark the plan has no conflicts: the
  branch asks for the local time to be above the remote time and the remote time to be
  above the local time at once.
\<close>

theorem createSyncPlan_conflicts_empty:
  "conflicts (createSyncPlan S localIndex remoteIndex) = []"
  by (simp add: createSyncPlan_def conflicts_foldl_local conflicts_foldl_remote emptyPlan_def)

text \<open>
  C1. Scenario C on the code: watermark 500, local \<open>c.md\<close> at 600, remote \<open>c.md\<close> at
  700. Both sides changed after the watermark, yet the plan holds no conflict; the
  remote entry is scheduled as a plain download.
\<close>

theorem scenarioC_no_conflict:
  "conflicts (createSyncPlan (DEFAULT_SETTINGS\<lparr>lastSyncTime := 500\<rparr>)
      [(''c.md'', fileEntry ''c.md'' 600 False)]
      [(''c.md'', remoteEntry ''c.md'' 700 False)]) = []
   \<and> downloads (createSyncPlan (DEFAULT_SETTINGS\<lparr>lastSyncTime := 500\<rparr>)
      [(''c.md'', fileEntry ''c.md'' 600 False)]
      [(''c.md'', remoteEntry ''c.md'' 700 False)]) = [remoteEntry ''c.md'' 700 False]"
  by (simp add: createSyncPlan_def planLocalEntry_def planRemoteEntry_def emptyPlan_def
      index_get_def index_has_def fileEntry_def remoteEntry_def orZero_def Let_def)

subsection \<open>Paths the planner leaves alone\<close>

lemma planLocalEntry_noop:
  "index_get ri k = Some rf \<Longrightarrow> noop_pair lf rf \<Longrightarrow> planLocalEntry ls ri plan (k, lf) = plan"
  unfolding noop_pair_def by (elim disjE) (simp_all add: planLocalEntry_def Let_def)

lemma planLocalEntry_paths:
  assumes "path lf = k" and "\<And>rf. index_get ri k = Some rf \<Longrightarrow> path rf = k"
  shows "set (plan_paths (planLocalEntry ls ri plan (k, lf))) \<subseteq> insert k (set (plan_paths plan))"
proof (cases "index_get ri k")
  case None
  then show ?thesis using assms(1)
    by (simp add: planLocalEntry_def Let_def plan_paths_def) blast
next
  case (Some rf)
  then have "path rf = k" by (rule assms(2))
  with Some assms(1) show ?thesis
    by (simp add: planLocalEntry_def Let_def plan_paths_def) blast
qed

lemma planRemoteEntry_paths:
  assumes "path rf = k"
  shows "set (plan_paths (planRemoteEntry ls li plan (k, rf))) \<subseteq> insert k (set (plan_paths plan))"
  using assms by (simp add: planRemoteEntry_def Let_def plan_paths_def) blast

lemma planRemoteEntry_present:
  "index_has li k \<Longrightarrow> planRemoteEntry ls li plan (k, rf) = plan"
  by (simp add: planRemoteEntry_def Let_def)

lemma foldl_local_keeps:
  assumes "p \<notin> set (plan_paths plan)"
    and "\<And>k lf. (k, lf) \<in> set es \<Longrightarrow> path lf = k"
    and "\<And>k rf. index_get ri k = Some rf \<Longrightarrow> path rf = k"
    and "\<And>lf. (p, lf) \<in> set es \<Longrightarrow> \<exists>rf. index_get ri p = Some rf \<and> noop_pair lf rf"
  shows "p \<notin> set (plan_paths (foldl (planLocalEntry ls ri) plan es))"
  using assms
proof (induction es arbitrary: plan)
  case Nil
  then show ?case by simp
next
  case (Cons e es)
  obtain k lf where e: "e = (k, lf)" by (cases e)
  have pk: "path lf = k" using Cons.prems(2) e by simp
  have step: "p \<notin> set (plan_paths (planLocalEntry ls ri plan (k, lf)))"
  proof (cases "k = p")
    case True
    then obtain rf where "index_get ri k = Some rf" "noop_pair lf rf"
      using Cons.prems(4) [of lf] e by auto
    then show ?thesis using Cons.prems(1) by (simp add: planLocalEntry_noop)
  next
    case False
    have "set (plan_paths (planLocalEntry ls ri plan (k, lf))) \<subseteq> insert k (set (plan_paths plan))"
      using pk Cons.prems(3) by (rule planLocalEntry_paths)
    with False Cons.prems(1) show ?thesis by blast
  qed
  have "p \<notin> set (plan_paths (foldl (planLocalEntry ls ri) (planLocalEntry ls ri plan (k, lf)) es))"
  proof (rule Cons.IH [OF step])
    fix k' lf' assume "(k', lf') \<in> set es"
    then show "path lf' = k'" using Cons.prems(2) by simp
  next
    fix k' rf assume "index_get ri k' = Some rf"
    then show "path rf = k'" by (rule Cons.prems(3))
  next
    fix lf' assume "(p, lf') \<in> set es"
    then show "\<exists>rf. index_get ri p = Some rf \<and> noop_pair lf' rf"
      using Cons.prems(4) by simp
  qed
  then show ?case by (simp add: e)
qed

lemma foldl_remote_keeps:
  assumes "p \<notin> set (plan_paths plan)"
    and "\<And>k rf. (k, rf) \<in> set es \<Longrightarrow> path rf = k"
    and "index_has li p"
  shows "p \<notin> set (plan_paths (foldl (planRemoteEntry ls li) plan es))"
  using assms
proof (induction es arbitrary: plan)
  case Nil
  then show ?case by simp
next
  case (Cons e es)
  obtain k rf where e: "e = (k, rf)" by (cases e)
  have pk: "path rf = k" using Cons.prems(2) e by simp
  have step: "p \<notin> set (plan_paths (planRemoteEntry ls li plan (k, rf)))"
  proof (cases "k = p")
    case True
    then show ?thesis using Cons.prems(1,3) by (simp add: planRemoteEntry_present)
  next
    case False
    have "set (plan_paths (planRemoteEntry ls li plan (k, rf))) \<subseteq> insert k (set (plan_paths plan))"
      using pk by (rule planRemoteEntry_paths)
    with False Cons.prems(1) show ?thesis by blast
  qed
  have "p \<notin> set (plan_paths (foldl (planRemoteEntry ls li) (planRemoteEntry ls li plan (k, rf)) es))"
  proof (rule Cons.IH [OF step _ Cons.prems(3)])
    fix k' rf' assume "(k', rf') \<in> set es"
    then show "path rf' = k'" using Cons.prems(2) by simp
  qed
  then show ?case by (simp add: e)
qed

lemma index_ok_path: "index_ok idx \<Longrightarrow> (k, f) \<in> set idx \<Longrightarrow> path f = k"
  by (auto simp: index_ok_def list_all_iff)

lemma index_ok_get: "index_ok idx \<Longrightarrow> (k, f) \<in> set idx \<Longrightarrow> index_get idx k = Some f"
  by (simp add: index_ok_def index_get_def)

lemma index_get_mem: "index_get idx k = Some f \<Longrightarrow> (k, f) \<in> set idx"
  by (simp add: index_get_def map_of_SomeD)

lemma noop_path_not_planned:
  assumes li: "index_ok localIndex" and ri: "index_ok remoteIndex"
    and l: "index_get localIndex p = Some lf" and r: "index_get remoteIndex p = Some rf"
    and n: "noop_pair lf rf"
  shows "p \<notin> set (plan_paths (createSyncPlan S localIndex remoteIndex))"
proof -
  have e: "p \<notin> set (plan_paths emptyPlan)"
    by (simp add: plan_paths_def emptyPlan_def)
  have "p \<notin> set (plan_paths (foldl (planLocalEntry (lastSyncTime S) remoteIndex) emptyPlan localIndex))"
  proof (rule foldl_local_keeps [OF e])
    fix k f assume "(k, f) \<in> set localIndex"
    with li show "path f = k" by (rule index_ok_path)
  next
    fix k f assume "index_get remoteIndex k = Some f"
    then have "(k, f) \<in> set remoteIndex" by (rule index_get_mem)
    with ri show "path f = k" by (rule index_ok_path)
  next
    fix f assume "(p, f) \<in> set localIndex"
    with li have "index_get localIndex p = Some f" by (rule index_ok_get)
    with l have "f = lf" by simp
    with r n show "\<exists>rf. index_get remoteIndex p = Some rf \<and> noop_pair f rf"
      by simp
  qed
  moreover have "\<And>k f. (k, f) \<in> set remoteIndex \<Longrightarrow> path f = k"
    using ri by (rule index_ok_path)
  moreover have "index_has localIndex p"
    using l by (simp add: index_has_def index_get_def)
  ultimately show ?thesis
    unfolding createSyncPlan_def
    by (rule foldl_remote_keeps)
qed

text \<open>
  C6. A path that is a file in both indices, with the local time equal to the remote
  time, is in no category of the plan, whatever the watermark.
\<close>

theorem equal_mtime_in_no_category:
  assumes "index_ok localIndex" and "index_ok remoteIndex"
    and "index_get localIndex p = Some lf" and "index_get remoteIndex p = Some rf"
    and "\<not> isFolder lf" and "\<not> isFolder rf"
    and "mtime lf = orZero (driveMtime rf)"
  shows "p \<notin> set (plan_paths (createSyncPlan S localIndex remoteIndex))"
  using assms(1-4) by (rule noop_path_not_planned) (simp add: noop_pair_def assms(7))

theorem equal_mtime_in_no_category_witness:
  "lastSyncTime (DEFAULT_SETTINGS\<lparr>lastSyncTime := 500\<rparr>) < mtime (fileEntry ''n.md'' 900 False)
   \<and> mtime (fileEntry ''n.md'' 900 False) = orZero (driveMtime (remoteEntry ''n.md'' 900 False))
   \<and> ''n.md'' \<notin> set (plan_paths (createSyncPlan (DEFAULT_SETTINGS\<lparr>lastSyncTime := 500\<rparr>)
        [(''a.md'', fileEntry ''a.md'' 100 False), (''n.md'', fileEntry ''n.md'' 900 False)]
        [(''n.md'', remoteEntry ''n.md'' 900 False)]))"
  using equal_mtime_in_no_category [of
      "[(''a.md'', fileEntry ''a.md'' 100 False), (''n.md'', fileEntry ''n.md'' 900 False)]"
      "[(''n.md'', remoteEntry ''n.md'' 900 False)]" "''n.md''"
      "fileEntry ''n.md'' 900 False" "remoteEntry ''n.md'' 900 False"
      "DEFAULT_SETTINGS\<lparr>lastSyncTime := 500\<rparr>"]
  by (simp add: index_ok_def index_get_def fileEntry_def remoteEntry_def orZero_def
      DEFAULT_SETTINGS_def)

text \<open>
  C9. A path present in both indices where at least one of the two entries is a folder
  (file against folder, folder against file, or two folders) is in no category of the
  plan.
\<close>

theorem kind_mismatch_in_no_category:
  assumes "index_ok localIndex" and "index_ok remoteIndex"
    and "index_get localIndex p = Some lf" and "index_get remoteIndex p = Some rf"
    and "isFolder lf \<or> isFolder rf"
  shows "p \<notin> set (plan_paths (createSyncPlan S localIndex remoteIndex))"
  using assms(1-4) by (rule noop_path_not_planned) (use assms(5) in \<open>auto simp: noop_pair_def\<close>)

theorem kind_mismatch_in_no_category_witness:
  "isFolder (remoteEntry ''notes'' 900 True) \<and> \<not> isFolder (fileEntry ''notes'' 700 False)
   \<and> ''notes'' \<notin> set (plan_paths (createSyncPlan (DEFAULT_SETTINGS\<lparr>lastSyncTime := 500\<rparr>)
        [(''notes'', fileEntry ''notes'' 700 False)]
        [(''notes'', remoteEntry ''notes'' 900 True), (''notes/b.md'', remoteEntry ''notes/b.md'' 900 False)]))"
  using kind_mismatch_in_no_category [of
      "[(''notes'', fileEntry ''notes'' 700 False)]"
      "[(''notes'', remoteEntry ''notes'' 900 True), (''notes/b.md'', remoteEntry ''notes/b.md'' 900 False)]"
      "''notes''" "fileEntry ''notes'' 700 False" "remoteEntry ''notes'' 900 True"
      "DEFAULT_SETTINGS\<lparr>lastSyncTime := 500\<rparr>"]
  by (simp add: index_ok_def index_get_def fileEntry_def remoteEntry_def)

section \<open>Properties of the string helpers\<close>

lemma split_on_nonempty: "split_on c xs \<noteq> []"
  by (induction xs) (auto split: list.split)

lemma join_Cons_nonempty: "ps \<noteq> [] \<Longrightarrow> join sep (p # ps) = p @ sep @ join sep ps"
  by (cases ps) simp_all

lemma join_split_on: "join [c] (split_on c xs) = xs"
proof (induction xs)
  case Nil
  show ?case by simp
next
  case (Cons x xs)
  obtain p ps where sp: "split_on c xs = p # ps"
    using split_on_nonempty [of c xs] by (cases "split_on c xs") auto
  show ?case
  proof (cases "x = c")
    case True
    then show ?thesis using Cons.IH sp by (simp add: join_Cons_nonempty)
  next
    case False
    then show ?thesis using Cons.IH sp by (cases ps) simp_all
  qed
qed

lemma split_on_no_sep: "c \<notin> set xs \<Longrightarrow> split_on c xs = [xs]"
  by (induction xs) auto

lemma split_on_append_sep: "split_on c (xs @ c # ys) = split_on c xs @ split_on c ys"
proof (induction xs)
  case Nil
  show ?case by simp
next
  case (Cons x xs)
  obtain p ps where sp: "split_on c xs = p # ps"
    using split_on_nonempty [of c xs] by (cases "split_on c xs") auto
  show ?case using Cons.IH sp by simp
qed

lemma last_split_on_suffix: "\<exists>d. xs = d @ last (split_on c xs)"
proof (induction xs)
  case Nil
  show ?case by simp
next
  case (Cons x xs)
  obtain p ps where sp: "split_on c xs = p # ps"
    using split_on_nonempty [of c xs] by (cases "split_on c xs") auto
  from Cons.IH obtain d where d: "xs = d @ last (split_on c xs)" by blast
  show ?case
  proof (cases "x = c")
    case True
    then have "last (split_on c (x # xs)) = last (split_on c xs)"
      using sp by simp
    with d have "x # xs = (x # d) @ last (split_on c (x # xs))" by simp
    then show ?thesis by blast
  next
    case False
    show ?thesis
    proof (cases ps)
      case Nil
      then have "xs = p" using join_split_on [of c xs] sp by simp
      with False sp Nil have "x # xs = [] @ last (split_on c (x # xs))" by simp
      then show ?thesis by blast
    next
      case (Cons q qs)
      with False sp have "last (split_on c (x # xs)) = last (split_on c xs)" by simp
      with d have "x # xs = (x # d) @ last (split_on c (x # xs))" by simp
      then show ?thesis by blast
    qed
  qed
qed

section \<open>Properties of the exclusion filter\<close>

text \<open>
  Every path the folder rule of the specification excludes is excluded by the code: a
  leading sequence of segments is in particular a prefix of the characters.
\<close>

lemma startsWith_append: "startsWith (xs @ ys) xs"
  by (induction xs) simp_all

lemma leadingSegments_append: "leadingSegments fs qs \<Longrightarrow> \<exists>r. qs = fs @ r"
  by (induction fs qs rule: leadingSegments.induct) auto

lemma join_append:
  "fs \<noteq> [] \<Longrightarrow> r \<noteq> [] \<Longrightarrow> join sep (fs @ r) = join sep fs @ sep @ join sep r"
proof (induction fs)
  case Nil
  then show ?case by simp
next
  case (Cons f fs)
  show ?case
  proof (cases fs)
    case Nil
    then show ?thesis using Cons.prems by (simp add: join_Cons_nonempty)
  next
    case (Cons g gs)
    then show ?thesis using Cons.IH Cons.prems by simp
  qed
qed

lemma spec_folderMatch_startsWith:
  assumes "spec_folderMatch folder p"
  shows "startsWith p folder"
proof (cases "p = folder")
  case True
  then show ?thesis using startsWith_append [of folder "[]"] by simp
next
  case False
  with assms obtain r where r: "split_on CHR ''/'' p = split_on CHR ''/'' folder @ r"
    using leadingSegments_append by (auto simp: spec_folderMatch_def)
  have p: "p = join ''/'' (split_on CHR ''/'' folder @ r)"
    using join_split_on [of "CHR ''/''" p] r by simp
  have f: "join ''/'' (split_on CHR ''/'' folder) = folder"
    by (rule join_split_on)
  show ?thesis
  proof (cases "r = []")
    case True
    with p f False show ?thesis by simp
  next
    case rne: False
    have "p = folder @ ''/'' @ join ''/'' r"
      using p f join_append [where sep = "''/''" and fs = "split_on CHR ''/'' folder" and r = r,
          OF split_on_nonempty rne] by simp
    then show ?thesis using startsWith_append [of folder "''/'' @ join ''/'' r"] by simp
  qed
qed

lemma spec_folderMatch_excluded:
  "folder \<in> set (excludedFolders S) \<Longrightarrow> spec_folderMatch folder p \<Longrightarrow> excludedByFolder S p"
  unfolding excludedByFolder_def list_ex_iff
  using spec_folderMatch_startsWith by blast

text \<open>
  C5. The folder rule on the code is a prefix test on the characters of the path, not on
  its segments: with \<open>.git\<close> among the excluded folders (and hidden files allowed, so
  that only the folder rule can fire) the path \<open>.github/workflows.md\<close> is excluded,
  although no excluded folder is a leading sequence of its segments. Likewise, with the
  folder \<open>temp\<close> excluded, the file \<open>template.md\<close> at the root is excluded.
\<close>

theorem excludedByFolder_raw_prefix:
  "excludedByFolder (DEFAULT_SETTINGS\<lparr>includeHiddenFiles := True\<rparr>) ''.github/workflows.md''
   \<and> shouldExclude (DEFAULT_SETTINGS\<lparr>includeHiddenFiles := True\<rparr>) ''.github/workflows.md''
   \<and> \<not> list_ex (\<lambda>folder. spec_folderMatch folder ''.github/workflows.md'')
          (excludedFolders (DEFAULT_SETTINGS\<lparr>includeHiddenFiles := True\<rparr>))
   \<and> shouldExclude (DEFAULT_SETTINGS\<lparr>excludedFolders := [''temp'']\<rparr>) ''template.md''
   \<and> \<not> spec_folderMatch ''temp'' ''template.md''"
  by (simp add: shouldExclude_def excludedByFolder_def DEFAULT_SETTINGS_def spec_folderMatch_def)

section \<open>Properties of the executor\<close>

lemmas sim_defs = scenarioA_def scenarioFail_def simState_def simSettings_def DEFAULT_SETTINGS_def
  simEnv_def simRead_def simWrite_def simDriveFile_def tick_def started_def
  sync_def syncBody_def syncCatch_def syncUntilExecuted_def ensureSyncFolder_def
  isAuthenticated_def saveSettings_def syncingStatus_def
  buildLocalFileIndex_def processFile_def processFolder_def
  shouldExclude_def excludedByFolder_def excludedByExtension_def excludedByHidden_def
  remoteMetadata_def index_merge_def
  createSyncPlan_def planLocalEntry_def planRemoteEntry_def emptyPlan_def index_get_def
  index_has_def orZero_def
  executeSyncPlan_def executeTransfers_def executeDeletions_def planTotal_def
  uploadFile_def uploadAttempt_def downloadFile_def downloadAttempt_def deleteLocalFile_def deleteRemoteFile_def
  resolveConflict_def parentPathOf_def getMimeType_def mimeTypes_def toLowerCase_def
  ret_def throw_def bindP_def tryCatch_def tryFinally_def call_def updateStatus_def notice_def
  consoleLine_def debugLog_def Let_def

subsection \<open>Combinators\<close>

lemma pres_ret: "g (snd (ret x s)) = g s"
  by (simp add: ret_def)

lemma pres_throw: "g (snd (throw e s)) = g s"
  by (simp add: throw_def)





subsection \<open>statuses\<close>











subsection \<open>Loops\<close>










section \<open>Properties of the session\<close>

subsection \<open>The watermark\<close>





































section \<open>Properties of the indexers\<close>

text \<open>Both builders return well-formed indices.\<close>

lemma index_set_keys:
  "map fst (index_set idx k v) = (if k \<in> fst ` set idx then map fst idx else map fst idx @ [k])"
  by (induction idx) (auto simp: rev_image_eqI)

lemma index_set_entries: "set (index_set idx k v) \<subseteq> insert (k, v) (set idx)"
  by (induction idx) (auto split: if_splits)

lemma index_ok_empty: "index_ok []"
  by (simp add: index_ok_def)

lemma index_ok_set:
  assumes "index_ok idx" and "path v = k"
  shows "index_ok (index_set idx k v)"
proof -
  have "distinct (map fst (index_set idx k v))"
    using assms(1) by (simp add: index_set_keys index_ok_def)
  moreover have "\<forall>e \<in> set (index_set idx k v). path (snd e) = fst e"
    using assms index_set_entries [of idx k v] by (auto simp: index_ok_def list_all_iff)
  ultimately show ?thesis by (simp add: index_ok_def list_all_iff)
qed

lemma index_ok_merge:
  assumes "index_ok idx" and "\<forall>e \<in> set sub. path (snd e) = fst e"
  shows "index_ok (index_merge idx sub)"
  using assms unfolding index_merge_def
  by (induction sub arbitrary: idx) (simp_all add: index_ok_set)

lemma index_ok_entries: "index_ok idx \<Longrightarrow> \<forall>e \<in> set idx. path (snd e) = fst e"
  by (simp add: index_ok_def list_all_iff)

lemma path_remoteMetadata: "path (remoteMetadata p d) = p"
  by (simp add: remoteMetadata_def)

lemma remote_index_ok:
  "buildRemoteFileIndex listing base = Inr idx \<Longrightarrow> index_ok idx"
  "index_ok idx0 \<Longrightarrow> remoteLoop files base idx0 = Inr idx \<Longrightarrow> index_ok idx"
proof (induction listing base and files base idx0 arbitrary: idx and idx
    rule: buildRemoteFileIndex_remoteLoop.induct)
  case (1 e basePath)
  then show ?case by simp
next
  case (2 files basePath)
  then show ?case by (simp add: index_ok_empty)
next
  case (3 basePath idx0)
  then show ?case by simp
next
  case (4 entry rest basePath idx0)
  define fl where "fl = fst entry"
  define p where "p = (if basePath \<noteq> [] then basePath @ ''/'' @ df_name fl else df_name fl)"
  define idx1 where "idx1 = index_set idx0 p (remoteMetadata p fl)"
  have ok1: "index_ok idx1"
    unfolding idx1_def using "4.prems"(1) by (rule index_ok_set) (rule path_remoteMetadata)
  have step: "remoteLoop (entry # rest) basePath idx0 =
      (if df_mimeType fl = ''application/vnd.google-apps.folder'' then
         (case buildRemoteFileIndex (snd entry) p of
            Inl e \<Rightarrow> Inl e
          | Inr subIndex \<Rightarrow> remoteLoop rest basePath (index_merge idx1 subIndex))
       else remoteLoop rest basePath idx1)"
    unfolding fl_def p_def idx1_def by (simp add: Let_def)
  show ?case
  proof (cases "df_mimeType fl = ''application/vnd.google-apps.folder''")
    case False
    then have "remoteLoop rest basePath idx1 = Inr idx"
      using "4.prems"(2) unfolding step by simp
    with "4.IH"(3) [OF fl_def p_def idx1_def False ok1] show ?thesis .
  next
    case True
    then have "(case buildRemoteFileIndex (snd entry) p of
            Inl e \<Rightarrow> Inl e
          | Inr subIndex \<Rightarrow> remoteLoop rest basePath (index_merge idx1 subIndex)) = Inr idx"
      using "4.prems"(2) unfolding step by simp
    then obtain sub where sub: "buildRemoteFileIndex (snd entry) p = Inr sub"
      and loop: "remoteLoop rest basePath (index_merge idx1 sub) = Inr idx"
      by (cases "buildRemoteFileIndex (snd entry) p") auto
    have "index_ok sub"
      using "4.IH"(1) [OF fl_def p_def idx1_def True sub] .
    then have "index_ok (index_merge idx1 sub)"
      using ok1 by (intro index_ok_merge index_ok_entries)
    with "4.IH"(2) [OF fl_def p_def idx1_def True sub] loop show ?thesis by blast
  qed
qed

text \<open>The local index holds no excluded path.\<close>

lemma local_inv_set:
  assumes "local_inv S idx" and "path v = k" and "\<not> shouldExclude S k"
  shows "local_inv S (index_set idx k v)"
  using assms index_set_entries [of idx k v]
  by (auto simp: local_inv_def index_ok_set)

lemma processFile_inv:
  assumes "local_inv (settings s) idx" and "processFile E fl idx s = (Inr idx', s')"
  shows "local_inv (settings s') idx' \<and> settings s' = settings s"
proof (cases "shouldExclude (settings s) (t_path fl)")
  case True
  with assms show ?thesis by (simp add: processFile_def ret_def)
next
  case False
  obtain r w where st: "adapter_stat E (t_path fl) (world s) = (r, w)"
    by (cases "adapter_stat E (t_path fl) (world s)")
  with False assms(2) have s': "s' = s\<lparr>world := w\<rparr>"
    by (auto simp: processFile_def bindP_def call_def ret_def split: sum.splits option.splits)
  show ?thesis
  proof (cases r)
    case (Inl e)
    with False st assms(2) show ?thesis
      by (simp add: processFile_def bindP_def call_def)
  next
    case (Inr opt)
    show ?thesis
    proof (cases opt)
      case None
      with Inr False st assms show ?thesis
        by (simp add: processFile_def bindP_def call_def ret_def s')
    next
      case (Some st')
      with Inr False st assms(2) have "idx' = index_set idx (t_path fl)
             \<lparr> path = t_path fl, name = t_name fl,
               mtime = stat_mtime st', fsize = stat_size st',
               isFolder = False, driveId = None, driveMtime = None, md5Checksum = None \<rparr>"
        by (simp add: processFile_def bindP_def call_def ret_def)
      then show ?thesis
        using assms(1) False by (simp add: s' local_inv_set)
    qed
  qed
qed

lemma processFiles_inv:
  assumes "local_inv (settings s) idx" and "processFiles E files idx s = (Inr idx', s')"
  shows "local_inv (settings s') idx' \<and> settings s' = settings s"
  using assms
proof (induction files arbitrary: idx s)
  case Nil
  then show ?case by (simp add: ret_def)
next
  case (Cons fl files)
  from Cons.prems(2) obtain idx1 s1 where
    one: "processFile E fl idx s = (Inr idx1, s1)"
    and more: "processFiles E files idx1 s1 = (Inr idx', s')"
    by (auto simp: bindP_def split: prod.splits sum.splits)
  have one': "local_inv (settings s1) idx1 \<and> settings s1 = settings s"
    using Cons.prems(1) one by (rule processFile_inv)
  then have "local_inv (settings s1) idx1" by (rule conjunct1)
  then have "local_inv (settings s') idx' \<and> settings s' = settings s1"
    using more by (rule Cons.IH)
  with one' show ?case by metis
qed

lemma processFolder_inv:
  "local_inv S idx \<Longrightarrow> local_inv S (processFolder S folder idx)"
  by (simp add: processFolder_def local_inv_set)

lemma processAllFolders_inv:
  "local_inv S idx \<Longrightarrow> local_inv S (processAllFolders S folder idx)"
proof (induction S folder idx rule: processAllFolders.induct)
  case (1 S p n idx)
  then show ?case by simp
next
  case (2 S p n cs idx)
  have "\<And>acc. local_inv S acc \<Longrightarrow> set ds \<subseteq> set cs \<Longrightarrow>
          local_inv S (foldl (\<lambda>acc child. processAllFolders S child acc) acc ds)" for ds
  proof (induction ds)
    case Nil
    then show ?case by simp
  next
    case (Cons d ds)
    then show ?case using "2.IH" by simp
  qed
  then show ?case using "2.prems" by (simp add: processFolder_inv)
qed

lemma buildLocalFileIndex_inv:
  assumes "buildLocalFileIndex E s = (Inr idx, s')"
  shows "index_ok idx \<and> (\<forall>e \<in> set idx. \<not> shouldExclude (settings s) (fst e))"
proof -
  from assms obtain idx1 where
    files: "processFiles E (vault_getFiles E (world s)) [] s = (Inr idx1, s')"
    and idx: "idx = processAllFolders (settings s') (vault_getRoot E (world s')) idx1"
    by (auto simp: buildLocalFileIndex_def bindP_def ret_def split: prod.splits sum.splits)
  have "local_inv (settings s) []"
    by (simp add: local_inv_def index_ok_empty)
  then have "local_inv (settings s') idx1 \<and> settings s' = settings s"
    using files by (rule processFiles_inv)
  then have "local_inv (settings s') idx1" and "settings s' = settings s"
    by (rule conjunct1, rule conjunct2)
  then have "local_inv (settings s) idx"
    unfolding idx using processAllFolders_inv [of "settings s'" idx1] by simp
  then show ?thesis by (simp add: local_inv_def)
qed

text \<open>
  C2. The remote index is built without the exclusion filter. With the default
  settings \<open>.obsidian/app.json\<close> is an excluded path, the vault's own copy of it is kept
  out of the local index, yet the remote index holds it, and the plan computed from an
  empty local index and that remote index with watermark 500 schedules it (here for
  remote deletion).
\<close>

theorem remote_index_keeps_excluded_path:
  "shouldExclude DEFAULT_SETTINGS ''.obsidian/app.json''
   \<and> fst (buildLocalFileIndex simEnv (simState DEFAULT_SETTINGS
        \<lparr> clock = 1000, localFiles = [(''.obsidian/app.json'', 300, ''{}'')],
          remoteFiles = [], failing = [] \<rparr>)) = Inr []
   \<and> buildRemoteFileIndex obsidianRemote '''' =
       Inr [(''.obsidian'', remoteMetadata ''.obsidian'' obsidianFolder),
            (''.obsidian/app.json'', remoteMetadata ''.obsidian/app.json'' appJson)]
   \<and> map path (deleteRemote (createSyncPlan (DEFAULT_SETTINGS\<lparr>lastSyncTime := 500\<rparr>) []
        [(''.obsidian'', remoteMetadata ''.obsidian'' obsidianFolder),
         (''.obsidian/app.json'', remoteMetadata ''.obsidian/app.json'' appJson)]))
      = [''.obsidian'', ''.obsidian/app.json'']"
  by (simp add: sim_defs obsidianRemote_def obsidianFolder_def appJson_def)

section \<open>Properties of the keep-both policy\<close>

text \<open>
  The new name puts the marker before the last dot of the whole path, and at the end
  when the path has no dot.
\<close>

lemma conflictPath_last_dot:
  assumes "CHR ''.'' \<notin> set x"
  shows "conflictPath (b @ ''.'' @ x) t = b @ ''_conflict_'' @ showInt t @ ''.'' @ x"
proof -
  have parts: "split_on CHR ''.'' (b @ ''.'' @ x) = split_on CHR ''.'' b @ [x]"
    using assms by (simp add: split_on_append_sep split_on_no_sep)
  have len: "length (split_on CHR ''.'' b @ [x]) > 1"
    using split_on_nonempty [of "CHR ''.''" b] by (cases "split_on CHR ''.'' b") auto
  show ?thesis
    unfolding conflictPath_def parts Let_def
    using len join_split_on [of "CHR ''.''" b] by simp
qed

lemma conflictPath_no_dot:
  assumes "CHR ''.'' \<notin> set p"
  shows "conflictPath p t = p @ ''_conflict_'' @ showInt t"
  using assms by (simp add: conflictPath_def split_on_no_sep)

text \<open>
  Where the file name has a dot, or the path has none, the code builds the name the
  specification describes.
\<close>

lemma conflictPath_meets_spec:
  assumes "CHR ''.'' \<in> set (last (split_on CHR ''/'' p)) \<or> CHR ''.'' \<notin> set p"
  shows "conflictPath p t = spec_conflictPath p t"
proof (cases "CHR ''.'' \<in> set (last (split_on CHR ''/'' p))")
  case False
  with assms have nodot: "CHR ''.'' \<notin> set p" by simp
  show ?thesis
    using False nodot by (simp add: spec_conflictPath_def conflictPath_no_dot)
next
  case True
  define fileName where "fileName = last (split_on CHR ''/'' p)"
  obtain d where d: "p = d @ fileName"
    using last_split_on_suffix [of p "CHR ''/''"] unfolding fileName_def by blast
  obtain fb x where fx: "fileName = fb @ CHR ''.'' # x" and x: "CHR ''.'' \<notin> set x"
    using True split_list_last [of "CHR ''.''" fileName] unfolding fileName_def by blast
  have ext: "last (split_on CHR ''.'' fileName) = x"
    using x by (simp add: fx split_on_append_sep split_on_no_sep)
  have p: "p = (d @ fb) @ ''.'' @ x"
    using d fx by simp
  have code: "conflictPath p t = (d @ fb) @ ''_conflict_'' @ showInt t @ ''.'' @ x"
    by (subst p) (rule conflictPath_last_dot [OF x])
  have "take (length p - length x - 1) p = d @ fb"
    by (subst (2) p, subst p) simp
  then have "spec_conflictPath p t = (d @ fb) @ ''_conflict_'' @ showInt t @ ''.'' @ x"
    using True ext unfolding spec_conflictPath_def fileName_def [symmetric] Let_def
    by (simp add: fileName_def)
  with code show ?thesis by simp
qed

lemma conflictPath_c_md: "conflictPath ''c.md'' 1000 = ''c_conflict_1000.md''"
  by (simp add: conflictPath_def showInt_def showNat.simps digitChar_def)


text \<open>
  Scenario D in the small world: for \<open>c.md\<close> the local text is kept as
  \<open>c_conflict_1000.md\<close> and \<open>c.md\<close> receives the remote text.
\<close>

lemma scenarioD_keep_both:
  "localFiles (world (snd (resolveConflict simEnv (askConflict ''c.md'') (askState ''c.md''))))
   = [(''c_conflict_1000.md'', 1001, ''local text''), (''c.md'', 1003, ''remote text'')]"
  by (simp add: sim_defs askConflict_def askState_def fileEntry_def remoteEntry_def
      conflictPath_c_md)


end
